theory Spec2Isabelle
  imports Main
begin

section \<open>The Graph-Loom Python reference client\<close>

text \<open>
  The development follows \<^verbatim>\<open>examples/python_client/client.py\<close>: one function,
  \<^verbatim>\<open>run\<close>, which opens a channel, sends one query through the \<^verbatim>\<open>Execute\<close>
  call and prints what comes back. The remote call is the only input of the program
  and standard output its only result, so \<^verbatim>\<open>run\<close> is modelled as a function
  from the behaviour of \<^verbatim>\<open>Execute\<close> to the list of printed lines.
\<close>

subsection \<open>Messages\<close>

text \<open>
  Modelled from the spec: the message classes of the generated module
  \<^verbatim>\<open>graph_loom_pb2\<close> are not part of the source. Their fields are those the
  client reads, with the types of sections 3 and 6 of the specification: texts,
  unsigned counters, a flag, maps from text to text. Identifiers are opaque there, so
  their type is a parameter \<open>'i\<close>. Two records cannot share field names in one
  theory, so the fields of a node and of a relationship carry a prefix.
\<close>

record 'i Node =
  node_id :: 'i
  node_label :: string
  node_metadata :: "string \<rightharpoonup> string"

record 'i Relationship =
  rel_id :: 'i
  rel_from_id :: 'i
  rel_to_id :: 'i
  rel_label :: string
  rel_metadata :: "string \<rightharpoonup> string"

text \<open>
  Modelled from the spec: a row is a oneof over a node, a relationship and an info
  text (sections 3, 6 and 9: one discriminant and three mutually exclusive payload
  slots, at most one of them populated, possibly none).
\<close>

datatype 'i Row =
  NoVariant
  | NodeVariant "'i Node"
  | RelationshipVariant "'i Relationship"
  | InfoVariant string

text \<open>
  The client asks a row about each member in turn (\<^verbatim>\<open>row.HasField("node")\<close>)
  and then reads it (\<^verbatim>\<open>row.node\<close>). The three functions below give the member
  when the row has it and \<open>None\<close> when \<^verbatim>\<open>HasField\<close> is false.
\<close>

fun node :: "'i Row \<Rightarrow> 'i Node option" where
  "node (NodeVariant n) = Some n"
| "node row = None"

fun relationship :: "'i Row \<Rightarrow> 'i Relationship option" where
  "relationship (RelationshipVariant r) = Some r"
| "relationship row = None"

fun info :: "'i Row \<Rightarrow> string option" where
  "info (InfoVariant s) = Some s"
| "info row = None"




record 'i QueryResponse =
  error :: "string option"
  affected_nodes :: nat
  affected_relationships :: nat
  mutated :: bool
  rows :: "'i Row list"

record QueryRequest =
  query :: string
  params :: "string \<rightharpoonup> string"
  log :: bool

text \<open>
  Modelled from the spec: the error of a response is an optional text. Reading
  \<^verbatim>\<open>response.error\<close> yields a text in every case, and an error that was
  never set reads as the empty text.
\<close>

definition get_error :: "'i QueryResponse \<Rightarrow> string" where
  "get_error response = (case error response of None \<Rightarrow> [] | Some msg \<Rightarrow> msg)"

subsection \<open>The RPC library\<close>

text \<open>
  What the client uses of \<^verbatim>\<open>grpc\<close>: a channel, the stub built on it, and the
  exception \<^verbatim>\<open>RpcError\<close> with its status code and details. The library makes
  a channel to a target in two ways, \<^verbatim>\<open>insecure_channel(target)\<close> and
  \<^verbatim>\<open>secure_channel(target, credentials)\<close>; a channel is kept as the call
  that made it.
\<close>

datatype ChannelCredentials = ssl_channel_credentials string

datatype Channel =
  insecure_channel string
  | secure_channel string ChannelCredentials

datatype GraphQueryStub = GraphQueryStub Channel

datatype StatusCode =
  OK | CANCELLED | UNKNOWN | INVALID_ARGUMENT | DEADLINE_EXCEEDED | NOT_FOUND
  | ALREADY_EXISTS | PERMISSION_DENIED | RESOURCE_EXHAUSTED | FAILED_PRECONDITION
  | ABORTED | OUT_OF_RANGE | UNIMPLEMENTED | INTERNAL | UNAVAILABLE | DATA_LOSS
  | UNAUTHENTICATED

record RpcError =
  code :: StatusCode
  details :: string

text \<open>
  \<^verbatim>\<open>stub.Execute(request)\<close> either raises an \<^verbatim>\<open>RpcError\<close> or returns a
  response.
\<close>

type_synonym 'i execute = "GraphQueryStub \<Rightarrow> QueryRequest \<Rightarrow> RpcError + 'i QueryResponse"

subsection \<open>Printed lines\<close>

text \<open>
  Every \<^verbatim>\<open>print\<close> of the client takes one formatted string literal. Such a
  literal is a sequence of constant pieces and of values to be formatted; a printed
  line is kept as that sequence, with each value tagged by what it is.
\<close>

datatype 'i pyval =
  Str string
  | UInt nat
  | Bool bool
  | Dict "string \<rightharpoonup> string"
  | Ident 'i
  | Code StatusCode

datatype 'i frag = Lit string | Fmt "'i pyval"

type_synonym 'i line = "'i frag list"

definition print :: "'i line \<Rightarrow> 'i line list \<Rightarrow> 'i line list" where
  "print l out = out @ [l]"

subsection \<open>The client\<close>

definition channel :: Channel where
  "channel = insecure_channel ''localhost:50051''"

definition stub :: GraphQueryStub where
  "stub = GraphQueryStub channel"

definition request :: QueryRequest where
  "request =
     \<lparr>query = ''CREATE (TEST:Note:URL {name: 'github'});'', params = Map.empty, log = True\<rparr>"

text \<open>The body of the loop over \<^verbatim>\<open>response.rows\<close> (lines 38 to 47).\<close>

definition print_row :: "'i Row \<Rightarrow> 'i line list \<Rightarrow> 'i line list" where
  "print_row row out =
     (case node row of
        Some n \<Rightarrow>
          print [Lit ''[Node] ID: '', Fmt (Ident (node_id n)),
                 Lit '', Label: '', Fmt (Str (node_label n)),
                 Lit '', Meta: '', Fmt (Dict (node_metadata n))] out
      | None \<Rightarrow>
          (case relationship row of
             Some r \<Rightarrow>
               print [Lit ''[Rel] ID: '', Fmt (Ident (rel_id r)),
                      Lit '', '', Fmt (Ident (rel_from_id r)),
                      Lit '' -> '', Fmt (Ident (rel_to_id r)),
                      Lit '', Label: '', Fmt (Str (rel_label r)),
                      Lit '', Meta: '', Fmt (Dict (rel_metadata r))] out
           | None \<Rightarrow>
               (case info row of
                  Some s \<Rightarrow> print [Lit ''[Info] '', Fmt (Str s)] out
                | None \<Rightarrow> out)))"

text \<open>
  The function \<^verbatim>\<open>run\<close> (lines 6 to 50). The \<^verbatim>\<open>try\<close> block is the
  \<open>Inr\<close> branch, the handler of \<^verbatim>\<open>grpc.RpcError\<close> the \<open>Inl\<close> branch; the early
  \<^verbatim>\<open>return\<close> of line 30 ends the function with one line printed.
\<close>

definition run :: "'i execute \<Rightarrow> 'i line list" where
  "run Execute =
     (case Execute stub request of
        Inr response \<Rightarrow>
          (if get_error response \<noteq> [] then
             print [Lit ''Server Error: '', Fmt (Str (get_error response))] []
           else
             (let out = print [Lit ''Affected Nodes: '', Fmt (UInt (affected_nodes response))] [];
                  out = print [Lit ''Affected Relationships: '',
                               Fmt (UInt (affected_relationships response))] out;
                  out = print [Lit ''Mutated: '', Fmt (Bool (mutated response))] out;
                  out = print [Lit (CHR 0x0A # ''Results:'')] out
              in fold print_row (rows response) out))
      | Inl e \<Rightarrow>
          print [Lit ''RPC failed: '', Fmt (Code (code e)), Lit '' - '', Fmt (Str (details e))] [])"

subsection \<open>Stand-ins for the remote side and sample messages\<close>

text \<open>
  The theorems below quantify over every behaviour of \<^verbatim>\<open>Execute\<close>. To run the
  client on concrete inputs, \<open>answering response\<close> is a remote side that returns
  \<open>response\<close> to every call, \<open>unreachable\<close> one that cannot be reached,
  \<open>listening_at endpoint response\<close> one that serves plain connections to
  \<open>endpoint\<close> and nothing else, and \<open>reporting\<close> a fault that tells through which
  channel the call came. The sample messages use numbers as identifiers.
\<close>

definition answering :: "'i QueryResponse \<Rightarrow> 'i execute" where
  "answering response s q = Inr response"

definition unreachable :: "nat execute" where
  "unreachable s q = Inl \<lparr>code = UNAVAILABLE, details = ''failed to connect to all addresses''\<rparr>"

fun listening_at :: "string \<Rightarrow> 'i QueryResponse \<Rightarrow> 'i execute" where
  "listening_at endpoint response (GraphQueryStub (insecure_channel t)) q =
     (if t = endpoint then Inr response
      else Inl \<lparr>code = UNAVAILABLE, details = ''failed to connect to all addresses''\<rparr>)"
| "listening_at endpoint response (GraphQueryStub (secure_channel t c)) q =
     Inl \<lparr>code = UNAVAILABLE, details = ''failed to connect to all addresses''\<rparr>"

fun reporting :: "GraphQueryStub \<Rightarrow> QueryRequest \<Rightarrow> RpcError" where
  "reporting (GraphQueryStub (insecure_channel t)) q =
     \<lparr>code = UNAVAILABLE, details = ''insecure '' @ t\<rparr>"
| "reporting (GraphQueryStub (secure_channel t c)) q =
     \<lparr>code = UNAVAILABLE, details = ''secure '' @ t\<rparr>"

definition sample_node :: "nat Node" where
  "sample_node = \<lparr>node_id = 1, node_label = ''Note'', node_metadata = [''name'' \<mapsto> ''github'']\<rparr>"

definition sample_relationship :: "nat Relationship" where
  "sample_relationship =
     \<lparr>rel_id = 7, rel_from_id = 1, rel_to_id = 2, rel_label = ''LINKS'', rel_metadata = Map.empty\<rparr>"

definition sample_rows :: "nat Row list" where
  "sample_rows =
     [NodeVariant sample_node,
      RelationshipVariant sample_relationship,
      InfoVariant ''2 rows'']"

definition sample_response :: "nat QueryResponse" where
  "sample_response =
     \<lparr>error = None, affected_nodes = 0, affected_relationships = 0, mutated = False,
      rows = sample_rows\<rparr>"

definition failed_response :: "nat QueryResponse" where
  "failed_response =
     \<lparr>error = Some ''syntax error'', affected_nodes = 3, affected_relationships = 2,
      mutated = True, rows = sample_rows\<rparr>"

definition empty_row :: "nat Row" where
  "empty_row = NoVariant"

definition gapped_response :: "nat QueryResponse" where
  "gapped_response =
     \<lparr>error = Some [], affected_nodes = 0, affected_relationships = 0, mutated = False,
      rows = [NodeVariant sample_node] @ [empty_row]
             @ [InfoVariant ''2 rows'']\<rparr>"


section \<open>The remote side\<close>

text \<open>
  Modelled from the spec: the query engine and the code that builds a response are
  not part of the source. What the engine did to its store is a list of writes, each
  creating, modifying or deleting one node or one relationship (section 3: the counters
  count the nodes and the relationships created, modified or deleted).
\<close>

datatype write_op = Created | Modified | Deleted

datatype 'i effect = NodeWrite write_op 'i | RelationshipWrite write_op 'i

text \<open>
  Modelled from the spec: an execution either fails with a message (section 4.1,
  semantic failure) or completes with its writes, the rows it returns, and the engine's
  word on whether it classifies as mutating a write that had no net effect (section 3,
  the server-defined edge case).
\<close>

datatype 'i outcome = Failed string | Completed "'i effect list" bool "'i Row list"

text \<open>Modelled from the spec: the nodes and the relationships that the writes touch.\<close>

fun written_nodes :: "'i effect list \<Rightarrow> 'i list" where
  "written_nodes [] = []"
| "written_nodes (NodeWrite w i # ws) = i # written_nodes ws"
| "written_nodes (RelationshipWrite w i # ws) = written_nodes ws"

fun written_relationships :: "'i effect list \<Rightarrow> 'i list" where
  "written_relationships [] = []"
| "written_relationships (NodeWrite w i # ws) = written_relationships ws"
| "written_relationships (RelationshipWrite w i # ws) = i # written_relationships ws"

text \<open>
  Modelled from the spec: the response to an execution. A failed query answers as
  Scenario B of section 8 does: the message, both counters zero, not mutated, no rows
  (section 7: there is no partial success, the result fields of a failed query are
  void). A completed query answers as Scenario A does: an empty error, the number of
  nodes and of relationships written, its rows, and \<open>mutated\<close> set when the query had
  any write effect or the engine classified a write without net effect as mutating.
\<close>

definition respond :: "'i outcome \<Rightarrow> 'i QueryResponse" where
  "respond outcome =
     (case outcome of
        Failed msg \<Rightarrow>
          \<lparr>error = Some msg, affected_nodes = 0, affected_relationships = 0,
           mutated = False, rows = []\<rparr>
      | Completed ws classified rs \<Rightarrow>
          \<lparr>error = Some [],
           affected_nodes = length (remdups (written_nodes ws)),
           affected_relationships = length (remdups (written_relationships ws)),
           mutated = (ws \<noteq> [] \<or> classified),
           rows = rs\<rparr>)"

text \<open>
  Modelled from the spec: the zero-effect-mutation edge case is an execution that
  wrote nothing and is classified as mutating all the same.
\<close>

definition zero_effect_mutation :: "'i outcome \<Rightarrow> bool" where
  "zero_effect_mutation outcome =
     (case outcome of
        Failed msg \<Rightarrow> False
      | Completed ws classified rs \<Rightarrow> ws = [] \<and> classified)"

text \<open>The executions behind Scenario A and Scenario B of section 8.\<close>

definition scenario_A :: "nat outcome" where
  "scenario_A = Completed [NodeWrite Created 1] False []"

definition scenario_B :: "nat outcome" where
  "scenario_B = Failed ''syntax error''"

section \<open>Properties of the client\<close>

lemma fold_print_row: "fold print_row rs out = out @ concat (map (\<lambda>row. print_row row []) rs)"
proof (induction rs arbitrary: out)
  case Nil
  show ?case by simp
next
  case (Cons row rs)
  have "print_row row out = out @ print_row row []"
    by (simp add: print_row_def print_def split: option.splits)
  with Cons show ?case by simp
qed


subsection \<open>The three ways a run can go\<close>

lemma answering_call: "answering response stub request = Inr response"
  by (simp add: answering_def)

lemma run_success:
  assumes "Execute stub request = Inr response" and "get_error response = []"
  shows "run Execute =
     [[Lit ''Affected Nodes: '', Fmt (UInt (affected_nodes response))],
      [Lit ''Affected Relationships: '', Fmt (UInt (affected_relationships response))],
      [Lit ''Mutated: '', Fmt (Bool (mutated response))],
      [Lit (CHR 0x0A # ''Results:'')]]
     @ concat (map (\<lambda>row. print_row row []) (rows response))"
  using assms by (simp add: run_def print_def fold_print_row)

lemma run_failure:
  assumes "Execute stub request = Inr response" and "get_error response \<noteq> []"
  shows "run Execute = [[Lit ''Server Error: '', Fmt (Str (get_error response))]]"
  using assms by (simp add: run_def print_def)

lemma run_fault:
  assumes "Execute stub request = Inl e"
  shows "run Execute =
     [[Lit ''RPC failed: '', Fmt (Code (code e)), Lit '' - '', Fmt (Str (details e))]]"
  using assms by (simp add: run_def print_def)

subsection \<open>Semantic errors\<close>

text \<open>
  Claim C1. When the response carries a non-empty error, the client prints the one line
  that reports it and returns. The output is that line whatever the rows, the two
  counters and the mutated flag hold: any other response with the same error text
  gives the same output, so nothing printed is derived from those fields.
\<close>

theorem semantic_error_reported_alone:
  assumes "Execute stub request = Inr response" and "get_error response \<noteq> []"
  shows "run Execute = [[Lit ''Server Error: '', Fmt (Str (get_error response))]]
    \<and> (\<forall>response'. get_error response' = get_error response
          \<longrightarrow> run (answering response') = run Execute)"
proof -
  have here: "run Execute = [[Lit ''Server Error: '', Fmt (Str (get_error response))]]"
    using assms by (rule run_failure)
  have "run (answering response') = run Execute"
    if same: "get_error response' = get_error response" for response' :: "'a QueryResponse"
  proof -
    have "run (answering response')
            = [[Lit ''Server Error: '', Fmt (Str (get_error response'))]]"
      using same assms(2) by (simp add: run_failure [of "answering response'" response'] answering_call)
    with here same show ?thesis by simp
  qed
  with here show ?thesis by blast
qed

theorem semantic_error_reported_alone_witness:
  "answering failed_response stub request = Inr failed_response
   \<and> get_error failed_response \<noteq> []
   \<and> run (answering failed_response) = [[Lit ''Server Error: '', Fmt (Str ''syntax error'')]]"
  using semantic_error_reported_alone [of "answering failed_response" failed_response]
  by (simp add: answering_def get_error_def failed_response_def)

subsection \<open>Transport faults\<close>

text \<open>
  Claim C2. When the call fails at the transport level, no response exists: the client
  prints one line with the status code and the details of the fault, and that output
  differs from the output for every response, whether it reports an error or not.
\<close>

theorem transport_fault_reported_apart:
  assumes "Execute stub request = Inl e"
  shows "run Execute =
      [[Lit ''RPC failed: '', Fmt (Code (code e)), Lit '' - '', Fmt (Str (details e))]]
    \<and> (\<forall>response. run Execute \<noteq> run (answering response))"
proof -
  have fault: "run Execute =
      [[Lit ''RPC failed: '', Fmt (Code (code e)), Lit '' - '', Fmt (Str (details e))]]"
    using assms by (rule run_fault)
  have "run Execute \<noteq> run (answering response)" for response :: "'a QueryResponse"
  proof (cases "get_error response = []")
    case True
    then have "4 \<le> length (run (answering response))"
      by (simp add: run_success [of "answering response" response] answering_call)
    moreover from fault have "length (run Execute) = 1"
      by simp
    ultimately show ?thesis by auto
  next
    case False
    with fault show ?thesis
      by (simp add: run_failure [of "answering response" response] answering_call)
  qed
  with fault show ?thesis by blast
qed

theorem transport_fault_reported_apart_witness:
  "unreachable stub request
     = Inl \<lparr>code = UNAVAILABLE, details = ''failed to connect to all addresses''\<rparr>
   \<and> run unreachable
     = [[Lit ''RPC failed: '', Fmt (Code UNAVAILABLE), Lit '' - '',
         Fmt (Str ''failed to connect to all addresses'')]]"
  using transport_fault_reported_apart
    [of unreachable "\<lparr>code = UNAVAILABLE, details = ''failed to connect to all addresses''\<rparr>"]
  by (simp add: unreachable_def)

subsection \<open>Rows\<close>

text \<open>
  Claim C3. For a response without error the client prints the two counters, the
  mutated flag and the heading, then the lines of the rows in their order. A row whose
  only populated slot is the node gives one line with the node's id, label and
  metadata; one whose only populated slot is the relationship gives one line with its
  id, both end points, label and metadata; one whose only populated slot is the info
  text gives one line with that text.
\<close>

theorem rows_rendered_by_variant:
  assumes "Execute stub request = Inr response" and "get_error response = []"
  shows "run Execute =
      [[Lit ''Affected Nodes: '', Fmt (UInt (affected_nodes response))],
       [Lit ''Affected Relationships: '', Fmt (UInt (affected_relationships response))],
       [Lit ''Mutated: '', Fmt (Bool (mutated response))],
       [Lit (CHR 0x0A # ''Results:'')]]
      @ concat (map (\<lambda>row. print_row row []) (rows response))
    \<and> (\<forall>row \<in> set (rows response).
         (\<forall>n. node row = Some n \<and> relationship row = None \<and> info row = None \<longrightarrow>
            print_row row [] =
              [[Lit ''[Node] ID: '', Fmt (Ident (node_id n)),
                Lit '', Label: '', Fmt (Str (node_label n)),
                Lit '', Meta: '', Fmt (Dict (node_metadata n))]])
       \<and> (\<forall>r. node row = None \<and> relationship row = Some r \<and> info row = None \<longrightarrow>
            print_row row [] =
              [[Lit ''[Rel] ID: '', Fmt (Ident (rel_id r)),
                Lit '', '', Fmt (Ident (rel_from_id r)),
                Lit '' -> '', Fmt (Ident (rel_to_id r)),
                Lit '', Label: '', Fmt (Str (rel_label r)),
                Lit '', Meta: '', Fmt (Dict (rel_metadata r))]])
       \<and> (\<forall>s. node row = None \<and> relationship row = None \<and> info row = Some s \<longrightarrow>
            print_row row [] = [[Lit ''[Info] '', Fmt (Str s)]]))"
proof (intro conjI ballI allI impI)
  show "run Execute =
      [[Lit ''Affected Nodes: '', Fmt (UInt (affected_nodes response))],
       [Lit ''Affected Relationships: '', Fmt (UInt (affected_relationships response))],
       [Lit ''Mutated: '', Fmt (Bool (mutated response))],
       [Lit (CHR 0x0A # ''Results:'')]]
      @ concat (map (\<lambda>row. print_row row []) (rows response))"
    using assms by (rule run_success)
qed (simp_all add: print_row_def print_def)

theorem rows_rendered_by_variant_witness:
  "answering sample_response stub request = Inr sample_response
   \<and> get_error sample_response = []
   \<and> NodeVariant sample_node \<in> set (rows sample_response)
   \<and> run (answering sample_response)
     = [[Lit ''Affected Nodes: '', Fmt (UInt 0)],
        [Lit ''Affected Relationships: '', Fmt (UInt 0)],
        [Lit ''Mutated: '', Fmt (Bool False)],
        [Lit (CHR 0x0A # ''Results:'')],
        [Lit ''[Node] ID: '', Fmt (Ident 1), Lit '', Label: '', Fmt (Str ''Note''),
         Lit '', Meta: '', Fmt (Dict [''name'' \<mapsto> ''github''])],
        [Lit ''[Rel] ID: '', Fmt (Ident 7), Lit '', '', Fmt (Ident 1), Lit '' -> '',
         Fmt (Ident 2), Lit '', Label: '', Fmt (Str ''LINKS''), Lit '', Meta: '',
         Fmt (Dict Map.empty)],
        [Lit ''[Info] '', Fmt (Str ''2 rows'')]]"
  using rows_rendered_by_variant [of "answering sample_response" sample_response]
  by (simp add: answering_def get_error_def sample_response_def sample_rows_def
        sample_node_def sample_relationship_def)

text \<open>
  Claim C4. A row with no slot populated prints nothing and the loop goes on: the
  output is the one the client gives for the same response without that row.
\<close>

theorem empty_row_skipped:
  assumes "Execute stub request = Inr response" and "get_error response = []"
    and "rows response = before @ [row] @ after"
    and "node row = None" and "relationship row = None" and "info row = None"
  shows "print_row row out = out
    \<and> run Execute = run (answering (response\<lparr>rows := before @ after\<rparr>))"
proof
  show skip: "print_row row out = out" for out
    using assms(4-6) by (simp add: print_row_def)
  have "get_error (response\<lparr>rows := before @ after\<rparr>) = []"
    using assms(2) by (simp add: get_error_def)
  then have "run (answering (response\<lparr>rows := before @ after\<rparr>)) =
      [[Lit ''Affected Nodes: '', Fmt (UInt (affected_nodes response))],
       [Lit ''Affected Relationships: '', Fmt (UInt (affected_relationships response))],
       [Lit ''Mutated: '', Fmt (Bool (mutated response))],
       [Lit (CHR 0x0A # ''Results:'')]]
      @ concat (map (\<lambda>row. print_row row []) (before @ after))"
    by (simp add: answering_call run_success
          [of "answering (response\<lparr>rows := before @ after\<rparr>)"
              "response\<lparr>rows := before @ after\<rparr>"])
  moreover have "run Execute =
      [[Lit ''Affected Nodes: '', Fmt (UInt (affected_nodes response))],
       [Lit ''Affected Relationships: '', Fmt (UInt (affected_relationships response))],
       [Lit ''Mutated: '', Fmt (Bool (mutated response))],
       [Lit (CHR 0x0A # ''Results:'')]]
      @ concat (map (\<lambda>row. print_row row []) (before @ [row] @ after))"
    using run_success [of Execute response] assms(1-3) by simp
  ultimately show "run Execute = run (answering (response\<lparr>rows := before @ after\<rparr>))"
    using skip [of "[]"] by simp
qed

theorem empty_row_skipped_witness:
  "answering gapped_response stub request = Inr gapped_response
   \<and> get_error gapped_response = []
   \<and> rows gapped_response
       = [NodeVariant sample_node] @ [empty_row]
         @ [InfoVariant ''2 rows'']
   \<and> node empty_row = None \<and> relationship empty_row = None \<and> info empty_row = None
   \<and> print_row empty_row [[Lit ''before'']] = [[Lit ''before'']]
   \<and> run (answering gapped_response)
     = [[Lit ''Affected Nodes: '', Fmt (UInt 0)],
        [Lit ''Affected Relationships: '', Fmt (UInt 0)],
        [Lit ''Mutated: '', Fmt (Bool False)],
        [Lit (CHR 0x0A # ''Results:'')],
        [Lit ''[Node] ID: '', Fmt (Ident 1), Lit '', Label: '', Fmt (Str ''Note''),
         Lit '', Meta: '', Fmt (Dict [''name'' \<mapsto> ''github''])],
        [Lit ''[Info] '', Fmt (Str ''2 rows'')]]"
proof -
  have a: "answering gapped_response stub request = Inr gapped_response"
    by (simp add: answering_def)
  have b: "get_error gapped_response = []"
    by (simp add: get_error_def gapped_response_def)
  have c: "rows gapped_response
       = [NodeVariant sample_node] @ [empty_row]
         @ [InfoVariant ''2 rows'']"
    by (simp add: gapped_response_def)
  have d: "node empty_row = None" "relationship empty_row = None" "info empty_row = None"
    by (simp_all add: empty_row_def)
  have e: "run (answering (gapped_response\<lparr>rows :=
              [NodeVariant sample_node]
              @ [InfoVariant ''2 rows'']\<rparr>))
     = [[Lit ''Affected Nodes: '', Fmt (UInt 0)],
        [Lit ''Affected Relationships: '', Fmt (UInt 0)],
        [Lit ''Mutated: '', Fmt (Bool False)],
        [Lit (CHR 0x0A # ''Results:'')],
        [Lit ''[Node] ID: '', Fmt (Ident 1), Lit '', Label: '', Fmt (Str ''Note''),
         Lit '', Meta: '', Fmt (Dict [''name'' \<mapsto> ''github''])],
        [Lit ''[Info] '', Fmt (Str ''2 rows'')]]"
    by (simp add: run_def answering_def get_error_def gapped_response_def print_def
          print_row_def sample_node_def)
  from empty_row_skipped
         [of "answering gapped_response" gapped_response
             "[NodeVariant sample_node]" empty_row
             "[InfoVariant ''2 rows'']"
             "[[Lit ''before'']]"]
       a b c d e
  show ?thesis by simp
qed




subsection \<open>Empty and absent errors\<close>



subsection \<open>The channel\<close>

text \<open>
  Claim C8, as stated, fails: the endpoint is not configurable. The function
  \<^verbatim>\<open>run\<close> takes no argument and passes a literal to
  \<^verbatim>\<open>insecure_channel\<close>, so a remote side that listens on port 50052 of the
  same host is not reached, while the same remote side on port 50051 is.
\<close>

theorem other_port_not_reached:
  "run (listening_at ''localhost:50052'' failed_response)
     = [[Lit ''RPC failed: '', Fmt (Code UNAVAILABLE), Lit '' - '',
         Fmt (Str ''failed to connect to all addresses'')]]
   \<and> run (listening_at ''localhost:50051'' failed_response)
     = [[Lit ''Server Error: '', Fmt (Str ''syntax error'')]]"
  by (simp add: run_def stub_def channel_def print_def get_error_def failed_response_def)

text \<open>
  Claim C8, amended. The client makes its channel with \<^verbatim>\<open>insecure_channel\<close>,
  without TLS, to the fixed endpoint of host \<^verbatim>\<open>localhost\<close> and port 50051.
  It calls \<^verbatim>\<open>Execute\<close> through the stub of that channel with its request:
  a fault that depends on the stub and the request is printed as raised for that stub
  and that request. What the remote side does for any other stub, that is for another
  endpoint or a secure channel, does not change the run.
\<close>

theorem client_calls_fixed_insecure_endpoint:
  "channel = insecure_channel (''localhost'' @ '':'' @ ''50051'')
   \<and> (run (\<lambda>s q. Inl (fault s q)) :: 'i line list)
       = [[Lit ''RPC failed: '',
           Fmt (Code (code (fault (GraphQueryStub (insecure_channel ''localhost:50051'')) request))),
           Lit '' - '',
           Fmt (Str (details (fault (GraphQueryStub (insecure_channel ''localhost:50051'')) request)))]]
   \<and> run (\<lambda>s. if s = GraphQueryStub (insecure_channel ''localhost:50051'') then Execute s
                else Other s)
       = (run Execute :: 'i line list)"
  by (simp add: channel_def stub_def run_def print_def)

theorem client_calls_fixed_insecure_endpoint_witness:
  "(run (\<lambda>s q. Inl (reporting s q)) :: nat line list)
     = [[Lit ''RPC failed: '', Fmt (Code UNAVAILABLE), Lit '' - '',
         Fmt (Str ''insecure localhost:50051'')]]
   \<and> run (\<lambda>s. if s = GraphQueryStub (insecure_channel ''localhost:50051'')
                then answering sample_response s else unreachable s)
     = run (answering sample_response)"
proof -
  note claim = client_calls_fixed_insecure_endpoint
    [of reporting "answering sample_response" unreachable]
  from claim have "(run (\<lambda>s q. Inl (reporting s q)) :: nat line list)
     = [[Lit ''RPC failed: '',
         Fmt (Code (code (reporting (GraphQueryStub (insecure_channel ''localhost:50051'')) request))),
         Lit '' - '',
         Fmt (Str (details (reporting (GraphQueryStub (insecure_channel ''localhost:50051'')) request)))]]"
    by blast
  moreover from claim have "run (\<lambda>s. if s = GraphQueryStub (insecure_channel ''localhost:50051'')
                then answering sample_response s else unreachable s)
     = run (answering sample_response)"
    by blast
  ultimately show ?thesis by simp
qed

section \<open>Properties of the remote side\<close>

lemma nothing_written: "written_nodes ws = [] \<and> written_relationships ws = [] \<longleftrightarrow> ws = []"
proof (cases ws)
  case Nil
  then show ?thesis by simp
next
  case (Cons w ws')
  then show ?thesis by (cases w) simp_all
qed

lemma affected_positive:
  "0 < length (remdups (written_nodes ws)) + length (remdups (written_relationships ws))
     \<longleftrightarrow> ws \<noteq> []"
proof -
  have "length (remdups (written_nodes ws)) = 0 \<longleftrightarrow> written_nodes ws = []"
    and "length (remdups (written_relationships ws)) = 0 \<longleftrightarrow> written_relationships ws = []"
    by simp_all
  with nothing_written [of ws] show ?thesis
    by (metis add_is_0 neq0_conv)
qed

text \<open>
  Claim C5. Leaving aside the executions that fall under the zero-effect-mutation edge
  case, a response is marked mutated exactly when its two counters add up to more
  than zero.
\<close>

theorem mutated_iff_affected:
  assumes "\<not> zero_effect_mutation outcome"
  shows "mutated (respond outcome)
    \<longleftrightarrow> 0 < affected_nodes (respond outcome) + affected_relationships (respond outcome)"
proof (cases outcome)
  case (Failed msg)
  then show ?thesis by (simp add: respond_def)
next
  case (Completed ws classified rs)
  with assms have "ws \<noteq> [] \<or> classified \<longleftrightarrow> ws \<noteq> []"
    by (auto simp: zero_effect_mutation_def)
  with Completed show ?thesis
    using affected_positive [of ws] by (simp add: respond_def)
qed

theorem mutated_iff_affected_witness:
  "\<not> zero_effect_mutation scenario_A
   \<and> respond scenario_A
       = \<lparr>error = Some [], affected_nodes = 1, affected_relationships = 0, mutated = True,
          rows = []\<rparr>
   \<and> (mutated (respond scenario_A)
        \<longleftrightarrow> 0 < affected_nodes (respond scenario_A) + affected_relationships (respond scenario_A))"
proof -
  have "\<not> zero_effect_mutation scenario_A"
    by (simp add: zero_effect_mutation_def scenario_A_def)
  moreover from this have "mutated (respond scenario_A)
        \<longleftrightarrow> 0 < affected_nodes (respond scenario_A) + affected_relationships (respond scenario_A)"
    by (rule mutated_iff_affected)
  moreover have "respond scenario_A
       = \<lparr>error = Some [], affected_nodes = 1, affected_relationships = 0, mutated = True,
          rows = []\<rparr>"
    by (simp add: respond_def scenario_A_def)
  ultimately show ?thesis by blast
qed

text \<open>
  Claim C6. A response with a non-empty error has no rows and both counters zero.
\<close>

theorem error_response_void:
  assumes "get_error (respond outcome) \<noteq> []"
  shows "rows (respond outcome) = []
    \<and> affected_nodes (respond outcome) = 0 \<and> affected_relationships (respond outcome) = 0"
proof (cases outcome)
  case (Failed msg)
  then show ?thesis by (simp add: respond_def)
next
  case (Completed ws classified rs)
  with assms show ?thesis by (simp add: respond_def get_error_def)
qed

theorem error_response_void_witness:
  "get_error (respond scenario_B) \<noteq> []
   \<and> respond scenario_B
       = \<lparr>error = Some ''syntax error'', affected_nodes = 0, affected_relationships = 0,
          mutated = False, rows = []\<rparr>
   \<and> rows (respond scenario_B) = []
   \<and> affected_nodes (respond scenario_B) = 0 \<and> affected_relationships (respond scenario_B) = 0"
proof -
  have "get_error (respond scenario_B) \<noteq> []"
    by (simp add: get_error_def respond_def scenario_B_def)
  moreover from this have "rows (respond scenario_B) = []
    \<and> affected_nodes (respond scenario_B) = 0 \<and> affected_relationships (respond scenario_B) = 0"
    by (rule error_response_void)
  moreover have "respond scenario_B
       = \<lparr>error = Some ''syntax error'', affected_nodes = 0, affected_relationships = 0,
          mutated = False, rows = []\<rparr>"
    by (simp add: respond_def scenario_B_def)
  ultimately show ?thesis by blast
qed

end
